theory Spec2Isabelle
  imports Complex_Main "HOL-Library.Log_Nat"
begin

section \<open>Numbers and their decimal rendering\<close>

text \<open>
  Chapter ordinals are the results of \<^verbatim>\<open>parseInt(..., 10)\<close>: integral numbers. They are
  modelled as unbounded \<^typ>\<open>int\<close>; the rounding of IEEE doubles beyond \<open>2^53\<close> and the
  exponent notation of \<^verbatim>\<open>String\<close> from \<open>10^21\<close> on are outside the model.
  \<^verbatim>\<open>null\<close> is \<open>None\<close>.

  A template literal \<^verbatim>\<open>`...${num}...`\<close> and \<^verbatim>\<open>String(num)\<close> render an integral number in
  decimal, with a leading minus sign when it is negative.
\<close>

definition digit_char :: "nat \<Rightarrow> char" where
  "digit_char d = char_of (48 + d)"

function show_nat :: "nat \<Rightarrow> string" where
  "show_nat n = (if n < 10 then [digit_char n] else show_nat (n div 10) @ [digit_char (n mod 10)])"
  by pat_completeness auto
termination
  by (relation "measure (\<lambda>n. n)") auto

declare show_nat.simps [simp del]

definition show_int :: "int \<Rightarrow> string" where
  "show_int i = (if i < 0 then CHR ''-'' # show_nat (nat (- i)) else show_nat (nat i))"

section \<open>reader.js: navigation targets\<close>

text \<open>
  \<^verbatim>\<open>
  function buildNavLinks(number, totalApprox = 30) {
    const prevNum = number > 1 ? number - 1 : null;
    const nextNum = number ? number + 1 : null;
    return { prevNum, nextNum };
  }
  \<close>
  \<^verbatim>\<open>null > 1\<close> is false and \<^verbatim>\<open>null\<close> and \<open>0\<close> are falsy.
\<close>

record nav_nums =
  prevNum :: "int option"
  nextNum :: "int option"

definition buildNavLinks :: "int option \<Rightarrow> nav_nums" where
  "buildNavLinks number =
     \<lparr> prevNum = (case number of None \<Rightarrow> None
                           | Some n \<Rightarrow> if n > 1 then Some (n - 1) else None),
       nextNum = (case number of None \<Rightarrow> None
                           | Some n \<Rightarrow> if n \<noteq> 0 then Some (n + 1) else None) \<rparr>"

definition toc_href :: string where
  "toc_href = ''../line1-patreonreader.html''"

text \<open>
  \<^verbatim>\<open>
  function pathForIndex(num) {
    if (!num) return '../line1-patreonreader.html';
    if (num === 1) return 'patreonchapter-1.html';
    return `patreonchapter-${num}.html`;
  }
  \<close>
\<close>

definition pathForIndex :: "int option \<Rightarrow> string" where
  "pathForIndex num =
     (case num of
        None \<Rightarrow> toc_href
      | Some n \<Rightarrow>
          if n = 0 then toc_href
          else if n = 1 then ''patreonchapter-1.html''
          else ''patreonchapter-'' @ show_int n @ ''.html'')"

text \<open>
  The anchors \<^verbatim>\<open>injectNav\<close> creates: \<^verbatim>\<open>href\<close>, \<^verbatim>\<open>textContent\<close>, \<^verbatim>\<open>dataset.role\<close>
  and the \<^verbatim>\<open>aria-label\<close> attribute (absent is \<open>None\<close>).
\<close>

record anchor =
  href :: string
  textContent :: string
  role :: "string option"
  ariaLabel :: "string option"

record nav =
  className :: string
  navLabel :: string
  children :: "anchor list"

datatype position = Top | Bottom

text \<open>The three slots of the synthesized bar (lines 71-105 of reader.js).\<close>

definition prevSlot :: "int option \<Rightarrow> anchor" where
  "prevSlot chapterIndex =
     (case prevNum (buildNavLinks chapterIndex) of
        Some p \<Rightarrow>
          if p > 0
          then \<lparr> href = pathForIndex (Some p), textContent = ''Previous'',
                 role = Some ''prev'', ariaLabel = None \<rparr>
          else \<lparr> href = ''../line1-patreonreader.html'', textContent = ''Table of Contents'',
                 role = None, ariaLabel = None \<rparr>
      | None \<Rightarrow> \<lparr> href = ''../line1-patreonreader.html'', textContent = ''Table of Contents'',
                  role = None, ariaLabel = None \<rparr>)"

definition tocSlot :: anchor where
  "tocSlot = \<lparr> href = ''../line1-patreonreader.html'', textContent = ''Table of Contents'',
               role = None, ariaLabel = Some ''Back to Act I table of contents'' \<rparr>"

definition nextSlot :: "int option \<Rightarrow> anchor" where
  "nextSlot chapterIndex =
     (case nextNum (buildNavLinks chapterIndex) of
        Some m \<Rightarrow>
          if m \<noteq> 0
          then \<lparr> href = pathForIndex (Some m), textContent = ''Next'',
                 role = Some ''next'', ariaLabel = None \<rparr>
          else \<lparr> href = ''../line1-patreonreader.html'', textContent = ''End of Act'',
                 role = None, ariaLabel = None \<rparr>
      | None \<Rightarrow> \<lparr> href = ''../line1-patreonreader.html'', textContent = ''End of Act'',
                  role = None, ariaLabel = None \<rparr>)"

definition makeNav :: "position \<Rightarrow> int option \<Rightarrow> nav" where
  "makeNav pos chapterIndex =
     \<lparr> className = (if pos = Top then ''chapter-top-nav'' else ''chapter-nav''),
       navLabel = (if pos = Top then ''Chapter top navigation'' else ''Chapter navigation''),
       children = [prevSlot chapterIndex, tocSlot, nextSlot chapterIndex] \<rparr>"

text \<open>
  The part of the document \<^verbatim>\<open>injectNav\<close> reads and writes: the first element matching
  \<^verbatim>\<open>.chapter-top-nav\<close> and the first matching \<^verbatim>\<open>.chapter-nav\<close>, if any. An existing bar is
  kept; otherwise the new one is inserted (the bottom one as a clone).
\<close>

record nav_dom =
  topNav :: "nav option"
  bottomNav :: "nav option"

definition injectNav :: "position \<Rightarrow> int option \<Rightarrow> nav_dom \<Rightarrow> nav_dom" where
  "injectNav pos chapterIndex d =
     (case pos of
        Top \<Rightarrow> (if topNav d \<noteq> None then d
                else d\<lparr> topNav := Some (makeNav Top chapterIndex) \<rparr>)
      | Bottom \<Rightarrow> (if bottomNav d \<noteq> None then d
                   else d\<lparr> bottomNav := Some (makeNav Bottom chapterIndex) \<rparr>))"

section \<open>reader.js: chapter identity and storage key\<close>

text \<open>
  What \<^verbatim>\<open>init\<close> reads from \<^verbatim>\<open>article.chapter\<close>: \<open>dataNumber\<close> is the value of
  \<^verbatim>\<open>article.dataset.number ? parseInt(article.dataset.number, 10) : NaN\<close> (\<open>None\<close> is
  \<^verbatim>\<open>NaN\<close>), \<open>dataType\<close> is \<^verbatim>\<open>article.dataset.type\<close> and \<open>elemId\<close> is \<^verbatim>\<open>article.id\<close>
  (the empty string when the element has no id).
\<close>

record article =
  dataNumber :: "int option"
  dataType :: "string option"
  elemId :: string

definition isComments :: "article \<Rightarrow> bool" where
  "isComments a = (dataType a = Some ''comments'')"

definition isPrologue :: "article \<Rightarrow> bool" where
  "isPrologue a = (dataType a = Some ''prologue'' \<or> elemId a = ''prologue'')"

definition chapterIndex :: "article \<Rightarrow> int option" where
  "chapterIndex a =
     (case dataNumber a of
        Some n \<Rightarrow> Some n
      | None \<Rightarrow> if isPrologue a then Some 0 else None)"

text \<open>
  \<^verbatim>\<open>`ashbones:act1:chapter:${ (chapterIndex === 0 ? 'prologue' : (chapterIndex||article.id)) }:scroll`\<close>
\<close>

definition keySlug :: "article \<Rightarrow> string" where
  "keySlug a =
     (if chapterIndex a = Some 0 then ''prologue''
      else (case chapterIndex a of
              Some n \<Rightarrow> show_int n
            | None \<Rightarrow> elemId a))"

definition storageKey :: "article \<Rightarrow> string" where
  "storageKey a = ''ashbones:act1:chapter:'' @ keySlug a @ '':scroll''"

text \<open>
  \<^verbatim>\<open>
  if (!isComments) {
    const hasCustomTopNav = !!qs('.chapter-top-nav');
    if (!hasCustomTopNav) { injectNav('top'); injectNav('bottom'); }
  }
  \<close>
\<close>

definition ensureNav :: "article \<Rightarrow> nav_dom \<Rightarrow> nav_dom" where
  "ensureNav a d =
     (if \<not> isComments a
      then (if topNav d = None
            then injectNav Bottom (chapterIndex a) (injectNav Top (chapterIndex a) d)
            else d)
      else d)"

text \<open>
  The chapter identity of the specification: the prologue, a numeric index, or the
  fallback element identifier.
\<close>

datatype chapter_identity = Prologue | Numbered int | Fallback string

definition identity_of :: "article \<Rightarrow> chapter_identity" where
  "identity_of a =
     (case chapterIndex a of
        Some n \<Rightarrow> if n = 0 then Prologue else Numbered n
      | None \<Rightarrow> Fallback (elemId a))"

section \<open>Numbers of the progress computation\<close>

text \<open>
  A JavaScript number is an IEEE double: a finite one is a rational, and the others are
  the infinities and \<^verbatim>\<open>NaN\<close>. An arithmetic operation on finite doubles returns the exact
  result rounded to the nearest double, a tie to the even significand.
\<close>

datatype jsnum = NaN | NegInf | Fin rat | PosInf

definition pow2 :: "int \<Rightarrow> rat" where
  "pow2 e = (if 0 \<le> e then 2 ^ nat e else 1 / 2 ^ nat (- e))"

text \<open>For \<open>q > 0\<close>, the exponent \<open>e\<close> with \<open>2^e \<le> q < 2^(e+1)\<close>.\<close>

definition ilog2 :: "rat \<Rightarrow> int" where
  "ilog2 q =
     (case quotient_of q of
        (n, d) \<Rightarrow> (let k = bitlen n - bitlen d in if pow2 k \<le> q then k else k - 1))"

definition round_half_even :: "rat \<Rightarrow> int" where
  "round_half_even x =
     (let f = \<lfloor>x\<rfloor> in
      if x - of_int f < 1 / 2 then f
      else if 1 / 2 < x - of_int f then f + 1
      else if even f then f else f + 1)"

text \<open>
  The nearest double: 53 significant bits, and the fixed spacing \<open>2^-1074\<close> of the
  subnormal range. The result is a double whenever it is below \<open>2^1024\<close> in magnitude;
  \<open>js_num\<close> adds the overflow to an infinity from \<open>2^1024\<close> on.
\<close>

definition to_double :: "rat \<Rightarrow> rat" where
  "to_double q =
     (if q = 0 then 0
      else (let e = max (ilog2 \<bar>q\<bar> - 52) (- 1074)
            in sgn q * of_int (round_half_even (\<bar>q\<bar> / pow2 e)) * pow2 e))"

definition js_num :: "rat \<Rightarrow> jsnum" where
  "js_num q =
     (if q \<noteq> 0 \<and> 1024 \<le> ilog2 \<bar>to_double q\<bar>
      then (if 0 < q then PosInf else NegInf)
      else Fin (to_double q))"

text \<open>\<^verbatim>\<open>a / b\<close> on finite numbers.\<close>

definition js_div :: "rat \<Rightarrow> rat \<Rightarrow> jsnum" where
  "js_div a b =
     (if b = 0 then (if a = 0 then NaN else if a > 0 then PosInf else NegInf)
      else js_num (a / b))"

text \<open>\<^verbatim>\<open>x * 100\<close>.\<close>

fun js_times100 :: "jsnum \<Rightarrow> jsnum" where
  "js_times100 (Fin q) = js_num (q * 100)"
| "js_times100 x = x"

text \<open>
  \<^verbatim>\<open>x / 100\<close> as the argument of \<^verbatim>\<open>String\<close>. For a whole \<open>k\<close> from 0 to 100 the decimal
  of \<open>k / 100\<close> has at most three digits, so it is the shortest decimal that reads back
  as the double nearest to \<open>k / 100\<close>, which is what \<^verbatim>\<open>String\<close> prints. The quotient is
  therefore kept exact here and printed by \<open>js_String\<close>.
\<close>

fun js_div100 :: "jsnum \<Rightarrow> jsnum" where
  "js_div100 (Fin q) = Fin (q / 100)"
| "js_div100 x = x"

text \<open>\<^verbatim>\<open>Math.round\<close> rounds to the nearest integer, a half towards \<open>+\<infinity>\<close>.\<close>

fun Math_round :: "jsnum \<Rightarrow> jsnum" where
  "Math_round (Fin q) = Fin (of_int \<lfloor>q + 1 / 2\<rfloor>)"
| "Math_round x = x"

text \<open>\<^verbatim>\<open>Math.min(c, x)\<close> and \<^verbatim>\<open>Math.max(c, x)\<close> for a finite constant \<open>c\<close>.\<close>

fun Math_min :: "rat \<Rightarrow> jsnum \<Rightarrow> jsnum" where
  "Math_min c NaN = NaN"
| "Math_min c NegInf = NegInf"
| "Math_min c (Fin q) = Fin (min c q)"
| "Math_min c PosInf = Fin c"

fun Math_max :: "rat \<Rightarrow> jsnum \<Rightarrow> jsnum" where
  "Math_max c NaN = NaN"
| "Math_max c NegInf = Fin c"
| "Math_max c (Fin q) = Fin (max c q)"
| "Math_max c PosInf = PosInf"

text \<open>\<^verbatim>\<open>a < b\<close>: false as soon as one side is \<^verbatim>\<open>NaN\<close>.\<close>

fun js_lt :: "jsnum \<Rightarrow> jsnum \<Rightarrow> bool" where
  "js_lt NaN y = False"
| "js_lt x NaN = False"
| "js_lt NegInf NegInf = False"
| "js_lt NegInf y = True"
| "js_lt PosInf y = False"
| "js_lt (Fin a) NegInf = False"
| "js_lt (Fin a) PosInf = True"
| "js_lt (Fin a) (Fin b) = (a < b)"

text \<open>
  \<^verbatim>\<open>String(x)\<close> and \<^verbatim>\<open>x + '%'\<close>. A finite number is written in decimal, the fraction by
  long division. This is what JavaScript prints for the numbers the program converts:
  whole numbers and hundredths between 0 and 1.
\<close>

fun frac_digits :: "nat \<Rightarrow> nat \<Rightarrow> nat \<Rightarrow> string" where
  "frac_digits 0 r d = []"
| "frac_digits (Suc fuel) r d =
     (if r = 0 then [] else digit_char (10 * r div d) # frac_digits fuel (10 * r mod d) d)"

definition show_rat :: "rat \<Rightarrow> string" where
  "show_rat q =
     (case quotient_of q of
        (n, d) \<Rightarrow>
          (if n < 0 then ''-'' else []) @ show_nat (nat \<bar>n\<bar> div nat d)
          @ (if nat \<bar>n\<bar> mod nat d = 0 then []
             else CHR ''.'' # frac_digits 20 (nat \<bar>n\<bar> mod nat d) (nat d)))"

fun js_String :: "jsnum \<Rightarrow> string" where
  "js_String NaN = ''NaN''"
| "js_String NegInf = ''-Infinity''"
| "js_String PosInf = ''Infinity''"
| "js_String (Fin q) = show_rat q"

section \<open>The persistent store\<close>

text \<open>
  \<^verbatim>\<open>localStorage\<close>: its entries, and whether a read or a write raises (storage disabled,
  quota exceeded). An exception is the \<open>Inl\<close> of a result.
\<close>

datatype js_error = StorageError

record storage =
  entries :: "string \<rightharpoonup> string"
  readFails :: bool
  writeFails :: bool

definition getItem :: "storage \<Rightarrow> string \<Rightarrow> js_error + string option" where
  "getItem s k = (if readFails s then Inl StorageError else Inr (entries s k))"

definition setItem :: "storage \<Rightarrow> string \<Rightarrow> string \<Rightarrow> js_error + storage" where
  "setItem s k v =
     (if writeFails s then Inl StorageError else Inr (s\<lparr> entries := (entries s)(k \<mapsto> v) \<rparr>))"

section \<open>reader.js: restoring the position and recomputing progress\<close>

text \<open>
  The page as \<^verbatim>\<open>init\<close> and \<^verbatim>\<open>updateProgress\<close> see it: the article, its bounding rectangle,
  \<^verbatim>\<open>window.innerHeight\<close>, \<^verbatim>\<open>document.documentElement.scrollHeight\<close>, the scroll position,
  the value assigned to \<^verbatim>\<open>bar.style.width\<close>, the label's \<^verbatim>\<open>textContent\<close> and the store.
\<close>

record reader =
  art :: article
  rectTop :: rat
  rectBottom :: rat
  rectHeight :: rat
  innerHeight :: int
  scrollHeight :: int
  scrollX :: rat
  scrollY :: rat
  barWidth :: string
  percentText :: string
  localStorage :: storage

text \<open>
  \<^verbatim>\<open>window.scrollTo(x, y)\<close> sets the scroll position to the one requested. A position
  outside the scrollable range, which the browser would pull back into it, does not
  arise from the restore for a scrollable height that is not negative.
\<close>

definition scrollTo :: "rat \<Rightarrow> rat \<Rightarrow> reader \<Rightarrow> reader" where
  "scrollTo x y r = r\<lparr> scrollX := x, scrollY := y \<rparr>"

text \<open>
  \<^verbatim>\<open>
  try {
    const saved = localStorage.getItem(storageKey);
    if (saved) {
      const val = parseFloat(saved);
      if (!Number.isNaN(val) && val > 0 && val < 1) {
        const y = Math.floor((document.documentElement.scrollHeight - window.innerHeight) * val);
        window.scrollTo(0, y);
      }
    }
  } catch (e) { /* ignore storage errors */ }
  \<close>
  \<^verbatim>\<open>parseFloat\<close> is a parameter. \<^verbatim>\<open>scrollHeight\<close> and \<^verbatim>\<open>innerHeight\<close> are 32-bit
  integers, so their difference is exact, and the product with a value between 0 and 1
  is the exact product rounded to the nearest double.
\<close>

definition restoreScroll :: "(string \<Rightarrow> jsnum) \<Rightarrow> reader \<Rightarrow> reader" where
  "restoreScroll parseFloat r =
     (case getItem (localStorage r) (storageKey (art r)) of
        Inl e \<Rightarrow> r
      | Inr saved \<Rightarrow>
          (case saved of
             None \<Rightarrow> r
           | Some s \<Rightarrow>
               if s = [] then r
               else
                 (let val = parseFloat s in
                  if val \<noteq> NaN \<and> js_lt (Fin 0) val \<and> js_lt val (Fin 1)
                  then (case val of
                          Fin v \<Rightarrow>
                            scrollTo 0
                              (of_int \<lfloor>to_double (of_int (scrollHeight r - innerHeight r) * v)\<rfloor>) r
                        | _ \<Rightarrow> r)
                  else r)))"

text \<open>
  \<^verbatim>\<open>
  function updateProgress() {
    const rect = article.getBoundingClientRect();
    const windowH = window.innerHeight;
    const visible = Math.max(0, Math.min(rect.bottom, windowH) - Math.max(rect.top, 0));
    const percentVisible = Math.round((visible / rect.height) * 100);
    const clamped = Math.max(0, Math.min(100, percentVisible));
    bar.style.width = clamped + '%';
    percent.textContent = clamped + '%';
    try { localStorage.setItem(storageKey, String(clamped / 100)); } catch (e) {}
  }
  \<close>
\<close>

text \<open>
  The difference is at most \<^verbatim>\<open>windowH\<close>, so it does not overflow upwards; where it would
  overflow downwards the maximum with 0 is 0 either way.
\<close>

definition visible :: "reader \<Rightarrow> rat" where
  "visible r =
     max 0 (to_double (min (rectBottom r) (of_int (innerHeight r)) - max (rectTop r) 0))"

definition clamped :: "reader \<Rightarrow> jsnum" where
  "clamped r =
     Math_max 0 (Math_min 100 (Math_round (js_times100 (js_div (visible r) (rectHeight r)))))"

definition updateProgress :: "reader \<Rightarrow> reader" where
  "updateProgress r =
     (let r1 = r\<lparr> barWidth := js_String (clamped r) @ ''%'',
                   percentText := js_String (clamped r) @ ''%'' \<rparr>
      in case setItem (localStorage r1) (storageKey (art r1)) (js_String (js_div100 (clamped r))) of
           Inl e \<Rightarrow> r1
         | Inr s \<Rightarrow> r1\<lparr> localStorage := s \<rparr>)"

section \<open>reader.js: the expand/collapse toggle\<close>

text \<open>
  \<^verbatim>\<open>
  toggle.addEventListener('click', () => {
    const expanded = toggle.getAttribute('aria-expanded') === 'true';
    toggle.setAttribute('aria-expanded', String(!expanded));
    navEl.classList.toggle('is-open', !expanded);
    links.classList.toggle('is-expanded', !expanded);
  });
  \<close>
  The state is the toggle's \<^verbatim>\<open>aria-expanded\<close> attribute (\<open>None\<close> when absent) and the
  class sets of the nav element and of the links element.
\<close>

record toggle_dom =
  ariaExpanded :: "string option"
  navClasses :: "string set"
  linksClasses :: "string set"

definition String_bool :: "bool \<Rightarrow> string" where
  "String_bool b = (if b then ''true'' else ''false'')"

definition classList_toggle :: "string \<Rightarrow> bool \<Rightarrow> string set \<Rightarrow> string set" where
  "classList_toggle c force cs = (if force then insert c cs else cs - {c})"

definition toggleClick :: "toggle_dom \<Rightarrow> toggle_dom" where
  "toggleClick t =
     (let expanded = (ariaExpanded t = Some ''true'') in
      \<lparr> ariaExpanded = Some (String_bool (\<not> expanded)),
        navClasses = classList_toggle ''is-open'' (\<not> expanded) (navClasses t),
        linksClasses = classList_toggle ''is-expanded'' (\<not> expanded) (linksClasses t) \<rparr>)"

text \<open>
  A state in which attribute and classes agree: expanded with both classes, or collapsed
  with neither.
\<close>

definition consistent :: "toggle_dom \<Rightarrow> bool" where
  "consistent t =
     (if ariaExpanded t = Some ''true''
      then ''is-open'' \<in> navClasses t \<and> ''is-expanded'' \<in> linksClasses t
      else ariaExpanded t = Some ''false''
           \<and> ''is-open'' \<notin> navClasses t \<and> ''is-expanded'' \<notin> linksClasses t)"

section \<open>reader.js: the animation-frame throttle\<close>

text \<open>
  \<^verbatim>\<open>
  let ticking = false;
  function onScroll() {
    if (!ticking) {
      window.requestAnimationFrame(() => { updateProgress(); ticking = false; });
      ticking = true;
    }
  }
  window.addEventListener('scroll', onScroll, { passive: true });
  window.addEventListener('resize', onScroll);
  \<close>
  The state is the flag and the number of callbacks waiting for the next animation frame.
  A frame runs every waiting callback; each runs \<^verbatim>\<open>updateProgress\<close> once and clears the
  flag.
\<close>

record throttle =
  ticking :: bool
  scheduled :: nat

datatype event = Scroll | Resize | AnimationFrame

definition throttle0 :: throttle where
  "throttle0 = \<lparr> ticking = False, scheduled = 0 \<rparr>"

definition onScroll :: "throttle \<Rightarrow> throttle" where
  "onScroll t =
     (if \<not> ticking t then t\<lparr> scheduled := scheduled t + 1, ticking := True \<rparr> else t)"

text \<open>Running \<open>k\<close> waiting callbacks: the flag afterwards and the executions counted.\<close>

fun runCallbacks :: "nat \<Rightarrow> bool \<times> nat \<Rightarrow> bool \<times> nat" where
  "runCallbacks 0 (tk, runs) = (tk, runs)"
| "runCallbacks (Suc k) (tk, runs) = runCallbacks k (False, Suc runs)"

definition animationFrame :: "throttle \<Rightarrow> throttle \<times> nat" where
  "animationFrame t =
     (case runCallbacks (scheduled t) (ticking t, 0) of
        (tk, runs) \<Rightarrow> (\<lparr> ticking = tk, scheduled = 0 \<rparr>, runs))"

text \<open>The executions of \<^verbatim>\<open>updateProgress\<close> in each animation frame of a trace, in order.\<close>

fun frameRuns :: "throttle \<Rightarrow> event list \<Rightarrow> nat list" where
  "frameRuns t [] = []"
| "frameRuns t (Scroll # es) = frameRuns (onScroll t) es"
| "frameRuns t (Resize # es) = frameRuns (onScroll t) es"
| "frameRuns t (AnimationFrame # es) =
     (case animationFrame t of (t', runs) \<Rightarrow> runs # frameRuns t' es)"

section \<open>act1-reader.js: the last-read marker\<close>

text \<open>
  A card of the grid: \<open>dataIndex\<close> is \<^verbatim>\<open>parseInt(a.dataset.index, 10)\<close> (\<open>None\<close> is
  \<^verbatim>\<open>NaN\<close>), \<open>dataLast\<close> its \<^verbatim>\<open>data-last\<close> attribute. The page: the store, the progress
  element's value and \<^verbatim>\<open>aria-valuenow\<close>, and the cards.
\<close>

record card =
  dataIndex :: "int option"
  dataLast :: "string option"

record toc =
  tocStorage :: storage
  progressValue :: int
  ariaValueNow :: "string option"
  items :: "card list"

text \<open>\<^verbatim>\<open>parseInt(a.dataset.index, 10) || 0\<close>\<close>

definition cardIndex :: "card \<Rightarrow> int" where
  "cardIndex a = (case dataIndex a of None \<Rightarrow> 0 | Some k \<Rightarrow> k)"

text \<open>\<^verbatim>\<open>items.find(...)\<close> and \<^verbatim>\<open>setAttribute('data-last', 'true')\<close> on the card found.\<close>

fun markLast :: "int \<Rightarrow> card list \<Rightarrow> card list" where
  "markLast i [] = []"
| "markLast i (a # as) =
     (if cardIndex a = i then a\<lparr> dataLast := Some ''true'' \<rparr> # as else a # markLast i as)"

text \<open>
  \<^verbatim>\<open>
  function setProgress(index) {
    if (!index) return;
    localStorage.setItem('act1-last-read', String(index));
    progress.value = Math.min(total, index);
    progress.setAttribute('aria-valuenow', String(progress.value));
    items.forEach(a => a.removeAttribute('data-last'));
    const last = items.find(a => (parseInt(a.dataset.index, 10) || 0) === index);
    if (last) last.setAttribute('data-last', 'true');
  }
  \<close>
  The index is a whole number, or \<open>None\<close> for \<^verbatim>\<open>null\<close>, \<^verbatim>\<open>undefined\<close> and \<^verbatim>\<open>NaN\<close>. Nothing
  catches an exception of the store here: it leaves the function. The progress element
  keeps the number assigned to it; the clamping of its value to its own range by the
  browser is outside the model.
\<close>

definition setProgress :: "int option \<Rightarrow> toc \<Rightarrow> js_error + toc" where
  "setProgress index t =
     (case index of
        None \<Rightarrow> Inr t
      | Some i \<Rightarrow>
          if i = 0 then Inr t
          else
            (case setItem (tocStorage t) ''act1-last-read'' (show_int i) of
               Inl e \<Rightarrow> Inl e
             | Inr s \<Rightarrow>
                 (let v = min (int (length (items t))) i in
                  Inr (t\<lparr> tocStorage := s,
                          progressValue := v,
                          ariaValueNow := Some (show_int v),
                          items := markLast i (map (\<lambda>a. a\<lparr> dataLast := None \<rparr>) (items t)) \<rparr>))))"

text \<open>
  \<^verbatim>\<open>
  const saved = parseInt(localStorage.getItem('act1-last-read'), 10);
  if (!isNaN(saved)) setProgress(saved);
  \<close>
  \<^verbatim>\<open>parseInt\<close> is a parameter (\<open>None\<close> is \<^verbatim>\<open>NaN\<close>).
\<close>

definition restoreLastRead :: "(string option \<Rightarrow> int option) \<Rightarrow> toc \<Rightarrow> js_error + toc" where
  "restoreLastRead parseInt t =
     (case getItem (tocStorage t) ''act1-last-read'' of
        Inl e \<Rightarrow> Inl e
      | Inr saved \<Rightarrow>
          (case parseInt saved of
             None \<Rightarrow> Inr t
           | Some n \<Rightarrow> setProgress (Some n) t))"

section \<open>Auxiliary notions of the proofs and examples\<close>

text \<open>
  The throttle's flag is set exactly while one callback waits for the next frame.
\<close>

definition throttle_inv :: "throttle \<Rightarrow> bool" where
  "throttle_inv t = (ticking t \<and> scheduled t = 1 \<or> \<not> ticking t \<and> scheduled t = 0)"


definition parseFloat_057 :: "string \<Rightarrow> jsnum" where
  "parseFloat_057 s = (if s = ''0.57'' then Fin (to_double (57 / 100)) else NaN)"

definition page_half :: "int \<Rightarrow> reader" where
  "page_half h =
     \<lparr> art = \<lparr> dataNumber = Some 3, dataType = None, elemId = ''chapter-3'' \<rparr>,
       rectTop = 0, rectBottom = 1000, rectHeight = 1000,
       innerHeight = 500, scrollHeight = h, scrollX = 40, scrollY = 0,
       barWidth = ''0%'', percentText = ''0%'',
       localStorage = \<lparr> entries = [''ashbones:act1:chapter:3:scroll'' \<mapsto> ''0.5''],
                        readFails = False, writeFails = False \<rparr> \<rparr>"

text \<open>The same page with the stored progress \<^verbatim>\<open>"0.57"\<close>, read by \<open>parseFloat_057\<close>.\<close>

definition page_057 :: "int \<Rightarrow> reader" where
  "page_057 h =
     (page_half h)
       \<lparr> localStorage := \<lparr> entries = [''ashbones:act1:chapter:3:scroll'' \<mapsto> ''0.57''],
                           readFails = False, writeFails = False \<rparr> \<rparr>"

section \<open>Properties of the decimal rendering\<close>

lemma digit_char_inj: "d < 10 \<Longrightarrow> e < 10 \<Longrightarrow> digit_char d = digit_char e \<Longrightarrow> d = e"
  by (simp add: digit_char_def char_of_eq_iff take_bit_eq_mod)

lemma digit_char_not_minus: "d < 10 \<Longrightarrow> digit_char d \<noteq> CHR ''-''"
proof
  assume d: "d < 10" and "digit_char d = CHR ''-''"
  then have "(of_char (char_of (48 + d) :: char) :: nat) = of_char CHR ''-''"
    by (simp add: digit_char_def)
  with d show False by (simp add: take_bit_eq_mod)
qed

lemma show_nat_nonempty: "show_nat n \<noteq> []"
  by (subst show_nat.simps) simp

lemma show_nat_digits: "c \<in> set (show_nat n) \<Longrightarrow> \<exists>d<10. c = digit_char d"
proof (induction n rule: show_nat.induct)
  case (1 n)
  show ?case
  proof (cases "n < 10")
    case True
    with "1.prems" show ?thesis by (subst (asm) show_nat.simps) auto
  next
    case False
    from "1.prems" have "c \<in> set (show_nat (n div 10)) \<or> c = digit_char (n mod 10)"
      using False by (subst (asm) show_nat.simps) auto
    then show ?thesis
    proof
      assume "c \<in> set (show_nat (n div 10))"
      with "1.IH" False show ?thesis by simp
    next
      assume "c = digit_char (n mod 10)"
      then show ?thesis by (intro exI [of _ "n mod 10"]) simp
    qed
  qed
qed

lemma show_nat_inj: "show_nat n = show_nat m \<Longrightarrow> n = m"
proof (induction n arbitrary: m rule: show_nat.induct)
  case (1 n)
  show ?case
  proof (cases "n < 10")
    case n: True
    show ?thesis
    proof (cases "m < 10")
      case True
      with n "1.prems" show ?thesis
        by (simp add: show_nat.simps [of n] show_nat.simps [of m] digit_char_inj)
    next
      case False
      with n "1.prems" show_nat_nonempty [of "m div 10"] show ?thesis
        by (simp add: show_nat.simps [of n] show_nat.simps [of m])
    qed
  next
    case n: False
    show ?thesis
    proof (cases "m < 10")
      case True
      with n "1.prems" show_nat_nonempty [of "n div 10"] show ?thesis
        by (simp add: show_nat.simps [of n] show_nat.simps [of m])
    next
      case False
      with n "1.prems" have eq: "show_nat (n div 10) = show_nat (m div 10)"
        and dg: "digit_char (n mod 10) = digit_char (m mod 10)"
        by (simp_all add: show_nat.simps [of n] show_nat.simps [of m])
      from "1.IH" [OF n eq] have "n div 10 = m div 10" .
      moreover from dg have "n mod 10 = m mod 10"
        by (intro digit_char_inj) simp_all
      ultimately show ?thesis
        by (metis div_mult_mod_eq)
    qed
  qed
qed

lemma show_nat_no_minus: "CHR ''-'' \<notin> set (show_nat n)"
  using show_nat_digits digit_char_not_minus by metis

lemma show_int_inj: "show_int i = show_int j \<Longrightarrow> i = j"
proof -
  assume eq: "show_int i = show_int j"
  have hd_nat: "\<And>k. hd (show_nat k) \<noteq> CHR ''-''"
    using show_nat_no_minus show_nat_nonempty by (metis hd_in_set)
  show ?thesis
  proof (cases "i < 0"; cases "j < 0")
    assume "i < 0" "j < 0"
    with eq have "nat (- i) = nat (- j)" by (simp add: show_int_def show_nat_inj)
    with \<open>i < 0\<close> \<open>j < 0\<close> show ?thesis by simp
  next
    assume "i < 0" "\<not> j < 0"
    with eq hd_nat [of "nat j"] show ?thesis by (auto simp: show_int_def dest: arg_cong [where f = hd])
  next
    assume "\<not> i < 0" "j < 0"
    with eq hd_nat [of "nat i"] show ?thesis by (auto simp: show_int_def dest: arg_cong [where f = hd])
  next
    assume "\<not> i < 0" "\<not> j < 0"
    with eq have "nat i = nat j" by (simp add: show_int_def show_nat_inj)
    with \<open>\<not> i < 0\<close> \<open>\<not> j < 0\<close> show ?thesis by simp
  qed
qed

lemma show_int_1: "show_int 1 = ''1''"
  by code_simp

lemma path_chapter: "n \<noteq> 0 \<Longrightarrow> pathForIndex (Some n) = ''patreonchapter-'' @ show_int n @ ''.html''"
  by (simp add: pathForIndex_def show_int_1)

section \<open>Navigation links\<close>

text \<open>
  Claim C1. For every chapter ordinal \<open>n \<ge> 2\<close> the previous link of the synthesized bar
  points to the page of ordinal \<open>n - 1\<close>, which is \<^verbatim>\<open>patreonchapter-(n-1).html\<close>. For
  \<open>n \<le> 1\<close> and for an absent ordinal no previous link is made: a link to the table of
  contents stands in the first slot. The bar that \<^verbatim>\<open>injectNav\<close> inserts where none exists
  has that link as its first child.
\<close>

theorem prev_link_target:
  "(2 \<le> n \<longrightarrow>
      prevSlot (Some n) =
        \<lparr> href = pathForIndex (Some (n - 1)), textContent = ''Previous'',
          role = Some ''prev'', ariaLabel = None \<rparr>
      \<and> pathForIndex (Some (n - 1)) = ''patreonchapter-'' @ show_int (n - 1) @ ''.html'')
   \<and> (n \<le> 1 \<longrightarrow>
      prevSlot (Some n) =
        \<lparr> href = ''../line1-patreonreader.html'', textContent = ''Table of Contents'',
          role = None, ariaLabel = None \<rparr>)
   \<and> prevSlot None =
        \<lparr> href = ''../line1-patreonreader.html'', textContent = ''Table of Contents'',
          role = None, ariaLabel = None \<rparr>
   \<and> children (makeNav pos ci) ! 0 = prevSlot ci
   \<and> (topNav d = None \<longrightarrow> topNav (injectNav Top ci d) = Some (makeNav Top ci))
   \<and> (bottomNav d = None \<longrightarrow> bottomNav (injectNav Bottom ci d) = Some (makeNav Bottom ci))"
proof -
  have "prevSlot (Some n) =
          \<lparr> href = pathForIndex (Some (n - 1)), textContent = ''Previous'',
            role = Some ''prev'', ariaLabel = None \<rparr>" if "2 \<le> n"
    using that by (simp add: prevSlot_def buildNavLinks_def)
  moreover have "pathForIndex (Some (n - 1)) = ''patreonchapter-'' @ show_int (n - 1) @ ''.html''"
    if "2 \<le> n"
    using that by (intro path_chapter) simp
  moreover have "prevSlot (Some n) =
          \<lparr> href = ''../line1-patreonreader.html'', textContent = ''Table of Contents'',
            role = None, ariaLabel = None \<rparr>" if "n \<le> 1"
    using that by (simp add: prevSlot_def buildNavLinks_def)
  moreover have "prevSlot None =
          \<lparr> href = ''../line1-patreonreader.html'', textContent = ''Table of Contents'',
            role = None, ariaLabel = None \<rparr>"
    by (simp add: prevSlot_def buildNavLinks_def)
  moreover have "children (makeNav pos ci) ! 0 = prevSlot ci"
    by (simp add: makeNav_def)
  moreover have "topNav (injectNav Top ci d) = Some (makeNav Top ci)" if "topNav d = None"
    using that by (simp add: injectNav_def)
  moreover have "bottomNav (injectNav Bottom ci d) = Some (makeNav Bottom ci)" if "bottomNav d = None"
    using that by (simp add: injectNav_def)
  ultimately show ?thesis by blast
qed

theorem prev_link_target_witness:
  "prevSlot (Some 5) =
     \<lparr> href = ''patreonchapter-4.html'', textContent = ''Previous'',
       role = Some ''prev'', ariaLabel = None \<rparr>
   \<and> prevSlot (Some 1) =
     \<lparr> href = ''../line1-patreonreader.html'', textContent = ''Table of Contents'',
       role = None, ariaLabel = None \<rparr>
   \<and> topNav (injectNav Top (Some 5) \<lparr> topNav = None, bottomNav = None \<rparr>) = Some (makeNav Top (Some 5))
   \<and> bottomNav (injectNav Bottom (Some 5) \<lparr> topNav = None, bottomNav = None \<rparr>)
       = Some (makeNav Bottom (Some 5))"
proof -
  have s4: "show_int (5 - 1) = ''4''"
    by code_simp
  note a = prev_link_target [of 5 Top "Some 5" "\<lparr> topNav = None, bottomNav = None \<rparr>"]
  note b = prev_link_target [of 1 Top "Some 5" "\<lparr> topNav = None, bottomNav = None \<rparr>"]
  from a b s4 show ?thesis by simp
qed

text \<open>
  Claim C2. For every chapter ordinal \<open>n \<ge> 1\<close> the next ordinal is \<open>n + 1\<close> and the next
  link points to \<^verbatim>\<open>patreonchapter-(n+1).html\<close>. For the prologue (ordinal 0) and for an
  absent ordinal no next ordinal is determined, and whenever none is determined the third
  slot is the "End of Act" link to the table of contents. The bar that \<^verbatim>\<open>injectNav\<close>
  inserts where none exists, at the top and at the bottom, has that link as its third
  child.
\<close>

theorem next_link_target:
  "(1 \<le> n \<longrightarrow>
      nextNum (buildNavLinks (Some n)) = Some (n + 1)
      \<and> nextSlot (Some n) =
        \<lparr> href = pathForIndex (Some (n + 1)), textContent = ''Next'',
          role = Some ''next'', ariaLabel = None \<rparr>
      \<and> pathForIndex (Some (n + 1)) = ''patreonchapter-'' @ show_int (n + 1) @ ''.html'')
   \<and> nextNum (buildNavLinks (Some 0)) = None
   \<and> nextSlot (Some 0) =
        \<lparr> href = ''../line1-patreonreader.html'', textContent = ''End of Act'',
          role = None, ariaLabel = None \<rparr>
   \<and> nextNum (buildNavLinks None) = None
   \<and> nextSlot None =
        \<lparr> href = ''../line1-patreonreader.html'', textContent = ''End of Act'',
          role = None, ariaLabel = None \<rparr>
   \<and> (nextNum (buildNavLinks ci) = None \<longrightarrow>
        nextSlot ci =
          \<lparr> href = ''../line1-patreonreader.html'', textContent = ''End of Act'',
            role = None, ariaLabel = None \<rparr>)
   \<and> children (makeNav pos ci) ! 2 = nextSlot ci
   \<and> (topNav d = None \<longrightarrow>
        topNav (injectNav Top ci d) = Some (makeNav Top ci)
        \<and> map_option (\<lambda>v. children v ! 2) (topNav (injectNav Top ci d)) = Some (nextSlot ci))
   \<and> (bottomNav d = None \<longrightarrow>
        bottomNav (injectNav Bottom ci d) = Some (makeNav Bottom ci)
        \<and> map_option (\<lambda>v. children v ! 2) (bottomNav (injectNav Bottom ci d))
            = Some (nextSlot ci))"
proof -
  have "nextNum (buildNavLinks (Some n)) = Some (n + 1)" if "1 \<le> n"
    using that by (simp add: buildNavLinks_def)
  moreover have "nextSlot (Some n) =
        \<lparr> href = pathForIndex (Some (n + 1)), textContent = ''Next'',
          role = Some ''next'', ariaLabel = None \<rparr>" if "1 \<le> n"
    using that by (simp add: nextSlot_def buildNavLinks_def)
  moreover have "pathForIndex (Some (n + 1)) = ''patreonchapter-'' @ show_int (n + 1) @ ''.html''"
    if "1 \<le> n"
    using that by (intro path_chapter) simp
  moreover have "nextSlot ci =
          \<lparr> href = ''../line1-patreonreader.html'', textContent = ''End of Act'',
            role = None, ariaLabel = None \<rparr>" if "nextNum (buildNavLinks ci) = None"
    using that by (simp add: nextSlot_def)
  moreover have "nextNum (buildNavLinks (Some 0)) = None" "nextNum (buildNavLinks None) = None"
    by (simp_all add: buildNavLinks_def)
  moreover have "nextSlot (Some 0) =
          \<lparr> href = ''../line1-patreonreader.html'', textContent = ''End of Act'',
            role = None, ariaLabel = None \<rparr>"
    "nextSlot None =
          \<lparr> href = ''../line1-patreonreader.html'', textContent = ''End of Act'',
            role = None, ariaLabel = None \<rparr>"
    by (simp_all add: nextSlot_def buildNavLinks_def)
  moreover have third: "children (makeNav pos ci) ! 2 = nextSlot ci" for pos
    by (simp add: makeNav_def)
  moreover have "topNav (injectNav Top ci d) = Some (makeNav Top ci)
      \<and> map_option (\<lambda>v. children v ! 2) (topNav (injectNav Top ci d)) = Some (nextSlot ci)"
    if "topNav d = None"
    using that by (simp add: injectNav_def third)
  moreover have "bottomNav (injectNav Bottom ci d) = Some (makeNav Bottom ci)
      \<and> map_option (\<lambda>v. children v ! 2) (bottomNav (injectNav Bottom ci d)) = Some (nextSlot ci)"
    if "bottomNav d = None"
    using that by (simp add: injectNav_def third)
  ultimately show ?thesis by simp
qed

theorem next_link_target_witness:
  "nextSlot (Some 7) =
     \<lparr> href = ''patreonchapter-8.html'', textContent = ''Next'',
       role = Some ''next'', ariaLabel = None \<rparr>
   \<and> map_option (\<lambda>v. children v ! 2)
       (topNav (injectNav Top (Some 7) \<lparr> topNav = None, bottomNav = None \<rparr>))
     = Some \<lparr> href = ''patreonchapter-8.html'', textContent = ''Next'',
              role = Some ''next'', ariaLabel = None \<rparr>
   \<and> map_option (\<lambda>v. children v ! 2)
       (bottomNav (injectNav Bottom (Some 0) \<lparr> topNav = None, bottomNav = None \<rparr>))
     = Some \<lparr> href = ''../line1-patreonreader.html'', textContent = ''End of Act'',
              role = None, ariaLabel = None \<rparr>"
proof -
  have s8: "show_int (7 + 1) = ''8''"
    by code_simp
  note a = next_link_target [of 7 "Some 7" Top "\<lparr> topNav = None, bottomNav = None \<rparr>"]
  note b = next_link_target [of 7 "Some 0" Bottom "\<lparr> topNav = None, bottomNav = None \<rparr>"]
  from a have "nextSlot (Some 7) =
     \<lparr> href = ''patreonchapter-8.html'', textContent = ''Next'',
       role = Some ''next'', ariaLabel = None \<rparr>"
    using s8 by simp
  moreover from a have "map_option (\<lambda>v. children v ! 2)
       (topNav (injectNav Top (Some 7) \<lparr> topNav = None, bottomNav = None \<rparr>))
     = Some (nextSlot (Some 7))"
    by simp
  moreover from b have "map_option (\<lambda>v. children v ! 2)
       (bottomNav (injectNav Bottom (Some 0) \<lparr> topNav = None, bottomNav = None \<rparr>))
     = Some (nextSlot (Some 0))"
    by simp
  moreover from b have "nextSlot (Some 0) =
     \<lparr> href = ''../line1-patreonreader.html'', textContent = ''End of Act'',
       role = None, ariaLabel = None \<rparr>"
    by simp
  ultimately show ?thesis by simp
qed

text \<open>
  On a page without bars that is no comments variant, initialization inserts both bars;
  on a comments variant or beside an existing top bar it inserts none.
\<close>

lemma ensureNav_cases:
  "\<not> isComments a \<Longrightarrow> topNav d = None \<Longrightarrow> bottomNav d = None \<Longrightarrow>
   ensureNav a d = \<lparr> topNav = Some (makeNav Top (chapterIndex a)),
                     bottomNav = Some (makeNav Bottom (chapterIndex a)) \<rparr>"
  "isComments a \<or> topNav d \<noteq> None \<Longrightarrow> ensureNav a d = d"
  by (auto simp: ensureNav_def injectNav_def)

text \<open>
  Outside the chapter ordinals: for \<open>-1\<close> the next ordinal is \<open>0\<close>, which is falsy, and the
  third slot is the fallback as well.
\<close>

lemma next_slot_minus_one:
  "nextNum (buildNavLinks (Some (- 1))) = Some 0
   \<and> nextSlot (Some (- 1)) =
       \<lparr> href = ''../line1-patreonreader.html'', textContent = ''End of Act'',
         role = None, ariaLabel = None \<rparr>"
  by (simp add: nextSlot_def buildNavLinks_def)

text \<open>
  Claim C3. \<^verbatim>\<open>buildNavLinks\<close> and \<^verbatim>\<open>pathForIndex\<close> have no failing branch: for every
  integer, zero, one, negative or large, and for \<^verbatim>\<open>null\<close>, they return the value given
  here in closed form, and the path is never empty.
\<close>

theorem nav_mapping_total:
  "buildNavLinks (Some n) =
     \<lparr> prevNum = (if 1 < n then Some (n - 1) else None),
       nextNum = (if n = 0 then None else Some (n + 1)) \<rparr>
   \<and> buildNavLinks None = \<lparr> prevNum = None, nextNum = None \<rparr>
   \<and> pathForIndex (Some n) =
       (if n = 0 then ''../line1-patreonreader.html''
        else ''patreonchapter-'' @ show_int n @ ''.html'')
   \<and> pathForIndex None = ''../line1-patreonreader.html''
   \<and> pathForIndex num \<noteq> []"
proof -
  have "pathForIndex num \<noteq> []"
    by (simp add: pathForIndex_def toc_href_def split: option.split)
  moreover have "pathForIndex (Some n) =
       (if n = 0 then ''../line1-patreonreader.html''
        else ''patreonchapter-'' @ show_int n @ ''.html'')"
    by (simp add: path_chapter) (simp add: pathForIndex_def toc_href_def)
  ultimately show ?thesis
    by (simp add: buildNavLinks_def) (simp add: pathForIndex_def toc_href_def)
qed

section \<open>The storage key\<close>

lemma digit_char_not_p: "d < 10 \<Longrightarrow> digit_char d \<noteq> CHR ''p''"
proof
  assume d: "d < 10" and "digit_char d = CHR ''p''"
  then have "(of_char (char_of (48 + d) :: char) :: nat) = of_char CHR ''p''"
    by (simp add: digit_char_def)
  with d show False by (simp add: take_bit_eq_mod)
qed

lemma show_int_not_prologue: "show_int n \<noteq> ''prologue''"
proof
  assume eq: "show_int n = ''prologue''"
  show False
  proof (cases "n < 0")
    case True
    with eq show False by (simp add: show_int_def)
  next
    case False
    with eq have "CHR ''p'' \<in> set (show_nat (nat n))" by (simp add: show_int_def)
    then obtain d where "d < 10" "CHR ''p'' = digit_char d"
      using show_nat_digits by blast
    then show False using digit_char_not_p by metis
  qed
qed

lemma storageKey_eq_iff: "storageKey a = storageKey b \<longleftrightarrow> keySlug a = keySlug b"
  by (simp add: storageKey_def)

lemma fallback_not_prologue: "chapterIndex a = None \<Longrightarrow> elemId a \<noteq> ''prologue''"
  by (auto simp: chapterIndex_def isPrologue_def split: option.splits if_splits)

text \<open>
  The storage key is not injective on chapter identities: chapter 5 and a page without a
  number whose element id is \<^verbatim>\<open>5\<close> have different identities and the same key.
\<close>

theorem storage_key_collision:
  "identity_of \<lparr> dataNumber = Some 5, dataType = None, elemId = ''chapter-5'' \<rparr>
     \<noteq> identity_of \<lparr> dataNumber = None, dataType = None, elemId = ''5'' \<rparr>
   \<and> storageKey \<lparr> dataNumber = Some 5, dataType = None, elemId = ''chapter-5'' \<rparr>
     = storageKey \<lparr> dataNumber = None, dataType = None, elemId = ''5'' \<rparr>"
  by code_simp

text \<open>
  Claim C7, amended. The storage key is a function of the chapter identity, and two pages
  have the same key exactly when they have the same identity or one has a numeric index
  and the other the fallback identifier that is the decimal rendering of that index. So
  the prologue shares its key with no other identity, distinct numeric indices have
  distinct keys, and distinct fallback identifiers have distinct keys.
\<close>

theorem storage_key_equal_iff:
  "storageKey a = storageKey b \<longleftrightarrow>
     identity_of a = identity_of b
     \<or> (\<exists>n. identity_of a = Numbered n \<and> identity_of b = Fallback (show_int n))
     \<or> (\<exists>n. identity_of a = Fallback (show_int n) \<and> identity_of b = Numbered n)"
proof (cases "chapterIndex a"; cases "chapterIndex b")
  assume "chapterIndex a = None" "chapterIndex b = None"
  then show ?thesis
    by (simp add: storageKey_eq_iff keySlug_def identity_of_def)
next
  fix m assume a: "chapterIndex a = None" and b: "chapterIndex b = Some m"
  from fallback_not_prologue [OF a] a b show ?thesis
    by (auto simp: storageKey_eq_iff keySlug_def identity_of_def)
next
  fix n assume a: "chapterIndex a = Some n" and b: "chapterIndex b = None"
  from fallback_not_prologue [OF b] a b show ?thesis
    by (auto simp: storageKey_eq_iff keySlug_def identity_of_def)
next
  fix n m assume "chapterIndex a = Some n" "chapterIndex b = Some m"
  then show ?thesis
    using show_int_not_prologue [of n] show_int_not_prologue [of m] show_int_inj [of n m]
    by (auto simp: storageKey_eq_iff keySlug_def identity_of_def)
qed

theorem storage_key_equal_iff_witness:
  "storageKey \<lparr> dataNumber = Some 5, dataType = None, elemId = ''five'' \<rparr>
     \<noteq> storageKey \<lparr> dataNumber = Some 6, dataType = None, elemId = ''five'' \<rparr>
   \<and> storageKey \<lparr> dataNumber = None, dataType = Some ''prologue'', elemId = ''p'' \<rparr>
     \<noteq> storageKey \<lparr> dataNumber = None, dataType = None, elemId = ''p'' \<rparr>"
proof -
  have s: "show_int 5 \<noteq> ''p''" by code_simp
  from s show ?thesis
  unfolding storage_key_equal_iff
  by (simp add: identity_of_def chapterIndex_def isPrologue_def)
qed

section \<open>The progress percentage\<close>

text \<open>
  Unless the region has height 0 and nothing of it is visible, the clamped percentage is a
  whole number between 0 and 100, whatever the rounding of quotient and product; bar and label show it followed by \<^verbatim>\<open>%\<close>, and the
  store receives the rendering of that number divided by 100.
\<close>

lemma show_rat_of_int: "0 \<le> k \<Longrightarrow> show_rat (of_int k) = show_int k"
  by (simp add: show_rat_def show_int_def)

lemma js_num_not_NaN: "js_num q \<noteq> NaN"
  by (simp add: js_num_def)

lemma js_times100_not_NaN: "x \<noteq> NaN \<Longrightarrow> js_times100 x \<noteq> NaN"
  by (cases x) (simp_all add: js_num_not_NaN)

lemma js_div_NaN_iff: "js_div a b = NaN \<longleftrightarrow> a = 0 \<and> b = 0"
  by (simp add: js_div_def js_num_not_NaN)

lemma clamp_range:
  assumes "x \<noteq> NaN"
  shows "\<exists>k. 0 \<le> k \<and> k \<le> 100 \<and> Math_max 0 (Math_min 100 (Math_round x)) = Fin (of_int k)"
proof (cases x)
  case NaN
  with assms show ?thesis by simp
next
  case NegInf
  then show ?thesis by (intro exI [of _ 0]) simp
next
  case (Fin q)
  define p where "p = \<lfloor>q + 1 / 2\<rfloor>"
  have "max 0 (min 100 (of_int p :: rat)) = of_int (max 0 (min 100 p))"
    by (simp add: max_def min_def)
  with Fin show ?thesis
    by (intro exI [of _ "max 0 (min 100 p)"]) (simp add: p_def)
next
  case PosInf
  then show ?thesis by (intro exI [of _ 100]) simp
qed

lemma clamped_cases:
  "clamped r = NaN \<and> rectHeight r = 0 \<and> visible r = 0
   \<or> (\<exists>k. 0 \<le> k \<and> k \<le> 100 \<and> clamped r = Fin (of_int k))"
proof (cases "visible r = 0 \<and> rectHeight r = 0")
  case True
  then show ?thesis by (simp add: clamped_def js_div_def)
next
  case False
  then have "js_times100 (js_div (visible r) (rectHeight r)) \<noteq> NaN"
    by (intro js_times100_not_NaN) (simp add: js_div_NaN_iff)
  from clamp_range [OF this] show ?thesis
    by (simp add: clamped_def)
qed

lemma updateProgress_display:
  "barWidth (updateProgress r) = js_String (clamped r) @ ''%''"
  "percentText (updateProgress r) = js_String (clamped r) @ ''%''"
  by (simp_all add: updateProgress_def Let_def split: sum.split)

lemma updateProgress_stored:
  "\<not> writeFails (localStorage r) \<Longrightarrow>
   entries (localStorage (updateProgress r)) (storageKey (art r))
     = Some (js_String (js_div100 (clamped r)))"
  by (simp add: updateProgress_def Let_def setItem_def)

lemma progress_in_range:
  assumes "rectHeight r \<noteq> 0 \<or> visible r \<noteq> 0"
  shows "\<exists>k. 0 \<le> k \<and> k \<le> 100
           \<and> barWidth (updateProgress r) = show_int k @ ''%''
           \<and> percentText (updateProgress r) = show_int k @ ''%''
           \<and> (\<not> writeFails (localStorage r) \<longrightarrow>
                entries (localStorage (updateProgress r)) (storageKey (art r))
                  = Some (js_String (Fin (of_int k / 100))))"
proof -
  from clamped_cases [of r] assms obtain k
    where k: "0 \<le> k" "k \<le> 100" "clamped r = Fin (of_int k)" by auto
  then show ?thesis
    by (intro exI [of _ k]) (simp add: updateProgress_display updateProgress_stored show_rat_of_int)
qed

text \<open>
  The scenario of a region 1000 high with its top at 0 in a viewport 500 high: half of it
  is visible, bar and label read \<^verbatim>\<open>50%\<close> and the store receives \<^verbatim>\<open>0.5\<close>.
\<close>

lemma progress_scenario:
  "barWidth (updateProgress (page_half 2000)) = ''50%''
   \<and> percentText (updateProgress (page_half 2000)) = ''50%''
   \<and> entries (localStorage (updateProgress (page_half 2000)))
        ''ashbones:act1:chapter:3:scroll'' = Some ''0.5''"
  by code_simp

text \<open>
  The quotient and the product are rounded as doubles: with the region from -171 to 29,
  200 high, the quotient is the double below 0.145 and the label reads \<^verbatim>\<open>14%\<close>.
\<close>

lemma progress_rounding_example:
  "percentText (updateProgress
     ((page_half 2000)\<lparr> rectTop := - 171, rectBottom := 29, rectHeight := 200 \<rparr>)) = ''14%''"
  by code_simp

text \<open>
  Claim C4, at a region of height 0 inside the viewport (top and bottom at 0, viewport
  500 high). The claim asks for a whole percentage between 0 and 100 on every geometry.
  Here \<^verbatim>\<open>visible / rect.height\<close> is \<^verbatim>\<open>0 / 0\<close>: the clamped value is \<^verbatim>\<open>NaN\<close>, the label
  reads \<^verbatim>\<open>NaN%\<close> and the store receives \<^verbatim>\<open>NaN\<close>.
\<close>

theorem progress_nan_on_empty_region:
  "clamped \<lparr> art = \<lparr> dataNumber = Some 3, dataType = None, elemId = ''chapter-3'' \<rparr>,
       rectTop = 0, rectBottom = 0, rectHeight = 0, innerHeight = 500, scrollHeight = 500,
       scrollX = 0, scrollY = 0, barWidth = ''0%'', percentText = ''0%'',
       localStorage = \<lparr> entries = Map.empty, readFails = False, writeFails = False \<rparr> \<rparr> = NaN
   \<and> percentText (updateProgress
       \<lparr> art = \<lparr> dataNumber = Some 3, dataType = None, elemId = ''chapter-3'' \<rparr>,
       rectTop = 0, rectBottom = 0, rectHeight = 0, innerHeight = 500, scrollHeight = 500,
       scrollX = 0, scrollY = 0, barWidth = ''0%'', percentText = ''0%'',
       localStorage = \<lparr> entries = Map.empty, readFails = False, writeFails = False \<rparr> \<rparr>) = ''NaN%''
   \<and> entries (localStorage (updateProgress
       \<lparr> art = \<lparr> dataNumber = Some 3, dataType = None, elemId = ''chapter-3'' \<rparr>,
       rectTop = 0, rectBottom = 0, rectHeight = 0, innerHeight = 500, scrollHeight = 500,
       scrollX = 0, scrollY = 0, barWidth = ''0%'', percentText = ''0%'',
       localStorage = \<lparr> entries = Map.empty, readFails = False, writeFails = False \<rparr> \<rparr>))
       ''ashbones:act1:chapter:3:scroll'' = Some ''NaN''"
  by code_simp

section \<open>Restoring the scroll position\<close>



text \<open>
  With the stored value \<^verbatim>\<open>"0.57"\<close> the double product decides: at a scrollable height of
  100 it is just below 57 and the page is scrolled to 56; at 500 it is 285.
\<close>

lemma restore_rounding_example:
  "scrollY (restoreScroll parseFloat_057 (page_057 600)) = 56
   \<and> scrollY (restoreScroll parseFloat_057 (page_057 1000)) = 285"
  by code_simp




section \<open>Failures of the store\<close>

text \<open>
  The reader catches them: a failing read restores nothing, a failing write leaves the
  store as it was.
\<close>

lemma reader_storage_failure_ignored:
  "readFails (localStorage r) \<Longrightarrow> restoreScroll pf r = r"
  "writeFails (localStorage r) \<Longrightarrow> localStorage (updateProgress r) = localStorage r"
  by (simp_all add: restoreScroll_def updateProgress_def getItem_def setItem_def Let_def)

text \<open>
  Claim C8, at a store that raises. The claim asks that every read and write of the
  controllers ignores the failure. The table-of-contents controller does not:
  \<^verbatim>\<open>setProgress(3)\<close> ends with the exception of the failing write, and the restore at
  initialization ends with the exception of the failing read.
\<close>

theorem toc_storage_failure_propagates:
  "setProgress (Some 3)
     \<lparr> tocStorage = \<lparr> entries = Map.empty, readFails = False, writeFails = True \<rparr>,
       progressValue = 0, ariaValueNow = None,
       items = [\<lparr> dataIndex = Some 3, dataLast = None \<rparr>] \<rparr>
   = Inl StorageError
   \<and> restoreLastRead (\<lambda>s. None)
     \<lparr> tocStorage = \<lparr> entries = Map.empty, readFails = True, writeFails = True \<rparr>,
       progressValue = 0, ariaValueNow = None,
       items = [\<lparr> dataIndex = Some 3, dataLast = None \<rparr>] \<rparr>
   = Inl StorageError"
  by (simp add: setProgress_def restoreLastRead_def setItem_def getItem_def)

section \<open>The expand/collapse toggle\<close>

lemma toggleClick_fields:
  "ariaExpanded (toggleClick t) = Some (String_bool (ariaExpanded t \<noteq> Some ''true''))"
  "navClasses (toggleClick t) =
     classList_toggle ''is-open'' (ariaExpanded t \<noteq> Some ''true'') (navClasses t)"
  "linksClasses (toggleClick t) =
     classList_toggle ''is-expanded'' (ariaExpanded t \<noteq> Some ''true'') (linksClasses t)"
  by (simp_all add: toggleClick_def Let_def)

lemma toggleClick_consistent: "consistent (toggleClick t)"
  by (simp add: consistent_def toggleClick_fields String_bool_def classList_toggle_def)

lemma toggleClick_twice_fields:
  "ariaExpanded (toggleClick (toggleClick t)) = Some (String_bool (ariaExpanded t = Some ''true''))"
  "navClasses (toggleClick (toggleClick t)) =
     (if ariaExpanded t = Some ''true'' then insert ''is-open'' (navClasses t)
      else navClasses t - {''is-open''})"
  "linksClasses (toggleClick (toggleClick t)) =
     (if ariaExpanded t = Some ''true'' then insert ''is-expanded'' (linksClasses t)
      else linksClasses t - {''is-expanded''})"
  by (auto simp: toggleClick_fields String_bool_def classList_toggle_def)

lemma toggleClick_twice_consistent: "consistent t \<Longrightarrow> toggleClick (toggleClick t) = t"
  by (intro toggle_dom.equality)
    (auto simp: toggleClick_twice_fields consistent_def String_bool_def split: if_splits)

text \<open>
  Two activations do not restore every state: a toggle without the attribute ends with
  \<^verbatim>\<open>aria-expanded="false"\<close>, and a collapsed toggle whose nav carries \<^verbatim>\<open>is-open\<close> loses
  that class.
\<close>

theorem toggle_twice_not_identity:
  "toggleClick (toggleClick \<lparr> ariaExpanded = None, navClasses = {}, linksClasses = {} \<rparr>)
     \<noteq> \<lparr> ariaExpanded = None, navClasses = {}, linksClasses = {} \<rparr>
   \<and> toggleClick (toggleClick
        \<lparr> ariaExpanded = Some ''false'', navClasses = {''is-open''}, linksClasses = {} \<rparr>)
     \<noteq> \<lparr> ariaExpanded = Some ''false'', navClasses = {''is-open''}, linksClasses = {} \<rparr>"
  by (simp add: toggleClick_def String_bool_def classList_toggle_def)

text \<open>
  Claim C6, amended. Two activations of the toggle return the attribute and both classes
  to their original state exactly when that state is consistent: \<^verbatim>\<open>aria-expanded\<close> is
  \<^verbatim>\<open>true\<close> with both classes present, or \<^verbatim>\<open>false\<close> with both absent. One activation makes
  every state consistent, so from the first activation on two more change nothing.
\<close>

theorem toggle_twice_identity_iff:
  "(toggleClick (toggleClick t) = t \<longleftrightarrow> consistent t)
   \<and> consistent (toggleClick t)
   \<and> toggleClick (toggleClick (toggleClick t)) = toggleClick t"
proof -
  have "consistent t" if "toggleClick (toggleClick t) = t"
    using toggleClick_consistent [of "toggleClick t"] that by simp
  then have "toggleClick (toggleClick t) = t \<longleftrightarrow> consistent t"
    using toggleClick_twice_consistent by blast
  moreover have "toggleClick (toggleClick (toggleClick t)) = toggleClick t"
    by (rule toggleClick_twice_consistent) (rule toggleClick_consistent)
  ultimately show ?thesis
    using toggleClick_consistent by simp
qed

theorem toggle_twice_identity_iff_witness:
  "toggleClick (toggleClick
     \<lparr> ariaExpanded = Some ''true'', navClasses = {''chapter-nav'', ''is-open'', ''is-visible''},
       linksClasses = {''chapter-nav__links'', ''is-expanded''} \<rparr>)
   = \<lparr> ariaExpanded = Some ''true'', navClasses = {''chapter-nav'', ''is-open'', ''is-visible''},
       linksClasses = {''chapter-nav__links'', ''is-expanded''} \<rparr>
   \<and> toggleClick (toggleClick
     \<lparr> ariaExpanded = Some ''false'', navClasses = {''chapter-nav'', ''is-visible''},
       linksClasses = {''chapter-nav__links''} \<rparr>)
   = \<lparr> ariaExpanded = Some ''false'', navClasses = {''chapter-nav'', ''is-visible''},
       linksClasses = {''chapter-nav__links''} \<rparr>"
proof -
  have a: "consistent \<lparr> ariaExpanded = Some ''true'',
      navClasses = {''chapter-nav'', ''is-open'', ''is-visible''},
      linksClasses = {''chapter-nav__links'', ''is-expanded''} \<rparr>"
    by (simp add: consistent_def)
  have b: "consistent \<lparr> ariaExpanded = Some ''false'',
      navClasses = {''chapter-nav'', ''is-visible''},
      linksClasses = {''chapter-nav__links''} \<rparr>"
    by (simp add: consistent_def)
  from a b show ?thesis
    using toggle_twice_identity_iff by blast
qed

section \<open>The animation-frame throttle\<close>

lemma runCallbacks_eq: "runCallbacks k (tk, r) = (if k = 0 then tk else False, r + k)"
  by (induction k arbitrary: tk r) auto

lemma onScroll_inv: "throttle_inv t \<Longrightarrow> throttle_inv (onScroll t)"
  by (auto simp: throttle_inv_def onScroll_def)

lemma animationFrame_inv:
  "throttle_inv t \<Longrightarrow> throttle_inv (fst (animationFrame t)) \<and> snd (animationFrame t) \<le> 1"
  by (auto simp: throttle_inv_def animationFrame_def runCallbacks_eq)

lemma frameRuns_le_1: "throttle_inv t \<Longrightarrow> k \<in> set (frameRuns t es) \<Longrightarrow> k \<le> 1"
proof (induction es arbitrary: t)
  case Nil
  then show ?case by simp
next
  case (Cons e es)
  show ?case
  proof (cases e)
    case Scroll
    with Cons.prems Cons.IH [of "onScroll t"] show ?thesis
      by (simp add: onScroll_inv)
  next
    case Resize
    with Cons.prems Cons.IH [of "onScroll t"] show ?thesis
      by (simp add: onScroll_inv)
  next
    case AnimationFrame
    with Cons.prems Cons.IH [of "fst (animationFrame t)"] animationFrame_inv [of t]
    show ?thesis
      by (auto simp: split_beta)
  qed
qed

lemma burst_state:
  "AnimationFrame \<notin> set burst \<Longrightarrow> burst \<noteq> [] \<Longrightarrow> throttle_inv t \<Longrightarrow>
   frameRuns t (burst @ AnimationFrame # es) = 1 # frameRuns throttle0 es"
proof (induction burst arbitrary: t)
  case Nil
  then show ?case by simp
next
  case (Cons e burst)
  from Cons.prems have e: "e = Scroll \<or> e = Resize" by (cases e) auto
  have step: "frameRuns t ((e # burst) @ AnimationFrame # es)
                = frameRuns (onScroll t) (burst @ AnimationFrame # es)"
    using e by auto
  show ?case
  proof (cases "burst = []")
    case True
    from Cons.prems(3) have "animationFrame (onScroll t) = (throttle0, 1)"
      by (auto simp: throttle_inv_def onScroll_def animationFrame_def runCallbacks_eq throttle0_def)
    with step True show ?thesis by simp
  next
    case False
    with Cons.IH [of "onScroll t"] Cons.prems step show ?thesis
      by (simp add: onScroll_inv)
  qed
qed

text \<open>
  Claim C9. In every trace of scroll, resize and animation-frame events from the initial
  state, each animation frame runs \<^verbatim>\<open>updateProgress\<close> at most once. A burst of scroll and
  resize events before a frame gives one run in that frame if the burst is not empty and
  none otherwise, and the throttle is back in its initial state.
\<close>

theorem throttle_once_per_frame:
  "(\<forall>k \<in> set (frameRuns throttle0 es). k \<le> 1)
   \<and> (AnimationFrame \<notin> set burst \<longrightarrow>
        frameRuns throttle0 (burst @ AnimationFrame # es)
          = (if burst = [] then 0 else 1) # frameRuns throttle0 es)"
proof (intro conjI ballI impI)
  have inv0: "throttle_inv throttle0"
    by (simp add: throttle_inv_def throttle0_def)
  {
    fix k assume "k \<in> set (frameRuns throttle0 es)"
    with inv0 show "k \<le> 1" by (rule frameRuns_le_1)
  }
  assume nofr: "AnimationFrame \<notin> set burst"
  show "frameRuns throttle0 (burst @ AnimationFrame # es)
          = (if burst = [] then 0 else 1) # frameRuns throttle0 es"
  proof (cases "burst = []")
    case True
    have "animationFrame throttle0 = (throttle0, 0)"
      by (simp add: animationFrame_def throttle0_def)
    with True show ?thesis by simp
  next
    case False
    with burst_state [OF nofr False inv0, of es] show ?thesis by simp
  qed
qed

theorem throttle_once_per_frame_witness:
  "frameRuns throttle0
     ([Scroll, Scroll, Resize, Scroll] @ AnimationFrame # [] @ AnimationFrame
        # [Resize] @ AnimationFrame # [])
   = [1, 0, 1]"
proof -
  have a: "AnimationFrame \<notin> set [Scroll, Scroll, Resize, Scroll]"
    and b: "AnimationFrame \<notin> set []" and c: "AnimationFrame \<notin> set [Resize]"
    by simp_all
  note t = throttle_once_per_frame [THEN conjunct2, rule_format]
  have "frameRuns throttle0 ([Resize] @ AnimationFrame # []) = [1]"
    by (simp only: t [OF c]) simp
  then have "frameRuns throttle0 ([] @ AnimationFrame # [Resize] @ AnimationFrame # []) = [0, 1]"
    by (simp only: t [OF b]) simp
  then show ?thesis
    by (simp only: t [OF a]) simp
qed

section \<open>The last-read marker\<close>

text \<open>
  Claim C10. \<^verbatim>\<open>setProgress\<close> with a falsy index, 0 of the prologue in particular, changes
  nothing: the store, the progress value, \<^verbatim>\<open>aria-valuenow\<close> and every card's marker are
  as before, and no exception is raised, whatever the state of the store.
\<close>

theorem setProgress_falsy_noop:
  "setProgress (Some 0) t = Inr t \<and> setProgress None t = Inr t"
  by (simp add: setProgress_def)

end
